theory Spec2Isabelle
  imports Main
begin

section \<open>Python strings and the Unicode database\<close>

text \<open>
  A Python \<^verbatim>\<open>str\<close> is a sequence of Unicode code points and \<^verbatim>\<open>len\<close> counts code
  points, so a string is modelled as a list of code points. \<open>py_str\<close> reads an ASCII
  literal of the theory as such a string; \<open>py_ord\<close> is Python's \<^verbatim>\<open>ord\<close> on it.
\<close>

type_synonym codepoint = nat

type_synonym str = "codepoint list"

definition py_ord :: "char \<Rightarrow> codepoint" where
  "py_ord c = of_char c"

definition py_str :: "string \<Rightarrow> str" where
  "py_str cs = map py_ord cs"

text \<open>
  The patterns of the source are \<^verbatim>\<open>str\<close> patterns compiled without flags, so the
  escapes \<^verbatim>\<open>\w\<close> and \<^verbatim>\<open>\d\<close> are the Unicode ones: \<^verbatim>\<open>\w\<close> is an alphanumeric code
  point or the underscore, \<^verbatim>\<open>\d\<close> a decimal digit. Below 128 both classes are fixed
  (letters, digits). From 128 on they are read from the Unicode database of the Python
  runtime, which is not part of the repository: it is the parameter \<open>U\<close> of every
  function that matches a pattern.
\<close>

record unicode_db =
  isalnum :: "codepoint \<Rightarrow> bool"
  isdecimal :: "codepoint \<Rightarrow> bool"

definition ascii_digit :: "codepoint \<Rightarrow> bool" where
  "ascii_digit c = (48 \<le> c \<and> c \<le> 57)"

definition ascii_letter :: "codepoint \<Rightarrow> bool" where
  "ascii_letter c = ((65 \<le> c \<and> c \<le> 90) \<or> (97 \<le> c \<and> c \<le> 122))"

definition uni_isalnum :: "unicode_db \<Rightarrow> codepoint \<Rightarrow> bool" where
  "uni_isalnum U c = (if c < 128 then ascii_letter c \<or> ascii_digit c else isalnum U c)"

definition uni_isdecimal :: "unicode_db \<Rightarrow> codepoint \<Rightarrow> bool" where
  "uni_isdecimal U c = (if c < 128 then ascii_digit c else isdecimal U c)"

text \<open>
  An excerpt of the Unicode database, for concrete evaluations: the Latin-1 letters
  U+00C0 to U+00FF (all but the signs U+00D7 and U+00F7) are alphanumeric, and the
  Arabic-Indic digits U+0660 to U+0669 are decimal digits.
\<close>

definition unicode_excerpt :: unicode_db where
  "unicode_excerpt =
     \<lparr> isalnum = (\<lambda>c. (192 \<le> c \<and> c \<le> 255 \<and> c \<noteq> 215 \<and> c \<noteq> 247) \<or> (1632 \<le> c \<and> c \<le> 1641)),
       isdecimal = (\<lambda>c. 1632 \<le> c \<and> c \<le> 1641) \<rparr>"

section \<open>The regular expressions of the source\<close>

text \<open>
  The fragment of Python's \<^verbatim>\<open>re\<close> syntax that the source uses: a pattern is a sequence
  of atoms, an atom is \<^verbatim>\<open>^\<close>, \<^verbatim>\<open>$\<close>, one character of a class, or a class under \<^verbatim>\<open>+\<close>.
  A class is a list of literals, ranges and the escapes \<^verbatim>\<open>\w\<close>, \<^verbatim>\<open>\d\<close>; a single
  character or escape outside brackets is the class of that one item. The capturing
  group around the email pattern does not change whether it matches and is left out.
\<close>

datatype class_item =
    Lit codepoint
  | Range codepoint codepoint
  | Esc_w
  | Esc_d

datatype atom =
    Caret
  | Dollar
  | One "class_item list"
  | Plus "class_item list"

type_synonym regex = "atom list"

fun item_matches :: "unicode_db \<Rightarrow> class_item \<Rightarrow> codepoint \<Rightarrow> bool" where
  "item_matches U (Lit a) c = (c = a)"
| "item_matches U (Range lo hi) c = (lo \<le> c \<and> c \<le> hi)"
| "item_matches U Esc_w c = (uni_isalnum U c \<or> c = 95)"
| "item_matches U Esc_d c = uni_isdecimal U c"

definition in_class :: "unicode_db \<Rightarrow> class_item list \<Rightarrow> codepoint \<Rightarrow> bool" where
  "in_class U items c = list_ex (\<lambda>i. item_matches U i c) items"

text \<open>
  \<open>match_at U p at_start s\<close>: the pattern \<open>p\<close> matches some prefix of the rest \<open>s\<close> of
  the subject; \<open>at_start\<close> says that the rest is the whole subject. Without the
  MULTILINE flag \<^verbatim>\<open>^\<close> matches at the start of the subject only, and \<^verbatim>\<open>$\<close> matches at
  the end of the subject and also just before a newline that is its last character.
  The matcher backtracks over every length of a \<^verbatim>\<open>+\<close>, as the engine does.
\<close>

fun match_at :: "unicode_db \<Rightarrow> regex \<Rightarrow> bool \<Rightarrow> str \<Rightarrow> bool" where
  "match_at U [] at_start s = True"
| "match_at U (Caret # p) at_start s = (at_start \<and> match_at U p at_start s)"
| "match_at U (Dollar # p) at_start s = ((s = [] \<or> s = [10]) \<and> match_at U p at_start s)"
| "match_at U (One cl # p) at_start [] = False"
| "match_at U (One cl # p) at_start (c # s) = (in_class U cl c \<and> match_at U p False s)"
| "match_at U (Plus cl # p) at_start [] = False"
| "match_at U (Plus cl # p) at_start (c # s) =
     (in_class U cl c \<and> (match_at U (Plus cl # p) False s \<or> match_at U p False s))"

text \<open>\<^verbatim>\<open>re.match\<close>: a match that starts at the first character (it need not reach the end).\<close>

definition re_match :: "unicode_db \<Rightarrow> regex \<Rightarrow> str \<Rightarrow> bool" where
  "re_match U p s = match_at U p True s"

text \<open>\<^verbatim>\<open>re.search\<close>: a match that starts at some position of the subject.\<close>

fun search_from :: "unicode_db \<Rightarrow> regex \<Rightarrow> bool \<Rightarrow> str \<Rightarrow> bool" where
  "search_from U p at_start [] = match_at U p at_start []"
| "search_from U p at_start (c # s) = (match_at U p at_start (c # s) \<or> search_from U p False s)"

definition re_search :: "unicode_db \<Rightarrow> regex \<Rightarrow> str \<Rightarrow> bool" where
  "re_search U p s = search_from U p True s"

text \<open>The patterns, in the order of the source (lines 28, 47, 77, 84, 91 and 98).\<close>

definition username_pattern :: regex where
  "username_pattern = [Caret, Plus [Esc_w], Dollar]"

definition email_pattern :: regex where
  "email_pattern =
     [Caret,
      Plus [Range (py_ord CHR ''a'') (py_ord CHR ''z''), Range (py_ord CHR ''A'') (py_ord CHR ''Z''),
            Range (py_ord CHR ''0'') (py_ord CHR ''9''), Lit (py_ord CHR ''_''), Lit (py_ord CHR ''.''),
            Lit (py_ord CHR ''+''), Lit (py_ord CHR ''-'')],
      One [Lit (py_ord CHR ''@'')],
      Plus [Range (py_ord CHR ''a'') (py_ord CHR ''z''), Range (py_ord CHR ''A'') (py_ord CHR ''Z''),
            Range (py_ord CHR ''0'') (py_ord CHR ''9''), Lit (py_ord CHR ''-'')],
      One [Lit (py_ord CHR ''.'')],
      Plus [Range (py_ord CHR ''a'') (py_ord CHR ''z''), Range (py_ord CHR ''A'') (py_ord CHR ''Z''),
            Range (py_ord CHR ''0'') (py_ord CHR ''9''), Lit (py_ord CHR ''-''), Lit (py_ord CHR ''.'')],
      Dollar]"

definition uppercase_pattern :: regex where
  "uppercase_pattern = [One [Range (py_ord CHR ''A'') (py_ord CHR ''Z'')]]"

definition lowercase_pattern :: regex where
  "lowercase_pattern = [One [Range (py_ord CHR ''a'') (py_ord CHR ''z'')]]"

definition digit_pattern :: regex where
  "digit_pattern = [One [Esc_d]]"

definition special_characters :: string where
  "special_characters = ''!@#$%^&*(),.?'' @ [CHR 0x22] @ '':{}|<>''"

definition special_pattern :: regex where
  "special_pattern = [One (map (\<lambda>c. Lit (py_ord c)) special_characters)]"

section \<open>The schema\<close>

text \<open>
  A validator either returns its value or raises. The source raises
  \<^verbatim>\<open>HTTPException(status_code, detail)\<close>; looking up a name that the class does not
  have raises \<^verbatim>\<open>AttributeError\<close>.
\<close>

datatype exn =
    HTTPException (status_code: nat) (detail: string)
  | AttributeError string

definition HTTP_400_BAD_REQUEST :: nat where
  "HTTP_400_BAD_REQUEST = 400"

text \<open>
  Modelled from the spec: the \<^verbatim>\<open>User\<close> model of \<^verbatim>\<open>models/user.py\<close> and SQLAlchemy's
  \<^verbatim>\<open>Session\<close> are not among the sources. A stored user has an id, a username and an
  email (the fields of \<^verbatim>\<open>UserResponse\<close>); a session is the stored users that
  \<^verbatim>\<open>query(User)\<close> ranges over, \<^verbatim>\<open>filter\<close> keeps the rows that satisfy the condition and
  \<^verbatim>\<open>first\<close> is the first of them or \<^verbatim>\<open>None\<close>.
\<close>

datatype User = User (User_id: int) (User_username: str) (User_email: str)

type_synonym Session = "User list"

definition first :: "'a list \<Rightarrow> 'a option" where
  "first rows = (case rows of [] \<Rightarrow> None | r # _ \<Rightarrow> Some r)"

text \<open>
  The names of the body of \<^verbatim>\<open>class UserCreate\<close> (lines 11 to 66) that can be looked up
  on the class: the class variable \<^verbatim>\<open>db_session\<close> and the three validators. The three
  fields are kept in the field table of the model and are no attributes of the class,
  and the base class \<^verbatim>\<open>BaseModel\<close> binds no name \<^verbatim>\<open>query\<close> either: \<^verbatim>\<open>query\<close> is a method
  of the session. \<open>cls_getattr\<close> is the lookup \<^verbatim>\<open>cls.name\<close>.
\<close>

definition UserCreate_attributes :: "string list" where
  "UserCreate_attributes =
     [''db_session'', ''validate_username'', ''validate_email'', ''validate_password'']"

definition cls_getattr :: "string \<Rightarrow> exn + string" where
  "cls_getattr name =
     (if name \<in> set UserCreate_attributes then Inr name else Inl (AttributeError name))"

text \<open>
  \<open>validate_username\<close> (lines 18 to 42). The class attribute \<^verbatim>\<open>db_session\<close> is \<^verbatim>\<open>None\<close> or
  a session; a session object is truthy. In the branch of line 36 the source looks
  \<^verbatim>\<open>query\<close> up on the class, not on the session.
\<close>

definition validate_username :: "unicode_db \<Rightarrow> Session option \<Rightarrow> str \<Rightarrow> exn + str" where
  "validate_username U db_session username =
     (if \<not> (3 \<le> length username \<and> length username \<le> 30) then
        Inl (HTTPException HTTP_400_BAD_REQUEST ''Username must be between 3 and 30 characters'')
      else if \<not> re_match U username_pattern username then
        Inl (HTTPException HTTP_400_BAD_REQUEST
               ''Username can only contain letters, numbers, and underscores'')
      else
        (case db_session of
           None \<Rightarrow> Inr username
         | Some session \<Rightarrow>
             (case cls_getattr ''query'' of
                Inl e \<Rightarrow> Inl e
              | Inr query \<Rightarrow>
                  (case first (filter (\<lambda>u. User_username u = username) session) of
                     Some existing_user \<Rightarrow>
                       Inl (HTTPException HTTP_400_BAD_REQUEST ''Username or email already registered'')
                   | None \<Rightarrow> Inr username))))"

text \<open>\<open>validate_email\<close> (lines 44 to 63); line 56 compares the email with the username column.\<close>

definition validate_email :: "unicode_db \<Rightarrow> Session option \<Rightarrow> str \<Rightarrow> exn + str" where
  "validate_email U db_session email =
     (if \<not> re_match U email_pattern email then
        Inl (HTTPException 400 ''Invalid email address'')
      else
        (case db_session of
           None \<Rightarrow> Inr email
         | Some session \<Rightarrow>
             (case cls_getattr ''query'' of
                Inl e \<Rightarrow> Inl e
              | Inr query \<Rightarrow>
                  (case first (filter (\<lambda>u. User_username u = email) session) of
                     Some existing_user \<Rightarrow> Inl (HTTPException 400 ''Email already registered'')
                   | None \<Rightarrow> Inr email))))"

text \<open>\<open>validate_password\<close> (lines 65 to 104), on the value that the \<^verbatim>\<open>SecretStr\<close> wraps.\<close>

datatype SecretStr = SecretStr (get_secret_value: str)

definition validate_password :: "unicode_db \<Rightarrow> SecretStr \<Rightarrow> exn + SecretStr" where
  "validate_password U password =
     (let password_str = get_secret_value password in
      if length password_str < 8 then
        Inl (HTTPException 400 ''Password must be at least 8 characters long'')
      else if \<not> re_search U uppercase_pattern password_str then
        Inl (HTTPException 400 ''Password must contain at least one uppercase letter'')
      else if \<not> re_search U lowercase_pattern password_str then
        Inl (HTTPException 400 ''Password must contain at least one lowercase letter'')
      else if \<not> re_search U digit_pattern password_str then
        Inl (HTTPException 400 ''Password must contain at least one digit'')
      else if \<not> re_search U special_pattern password_str then
        Inl (HTTPException 400 ''Password must contain at least one special character'')
      else Inr password)"

text \<open>
  The model \<^verbatim>\<open>UserCreate\<close> (lines 10 to 13). Building it validates the fields in the
  order of their declaration, each with its validator; an exception that is neither a
  \<^verbatim>\<open>ValueError\<close> nor an \<^verbatim>\<open>AssertionError\<close> leaves the construction at once, so the
  validators of the later fields do not run.
\<close>

record UserCreate =
  username :: str
  email :: str
  password :: SecretStr

definition UserCreate_init ::
    "unicode_db \<Rightarrow> Session option \<Rightarrow> str \<Rightarrow> str \<Rightarrow> SecretStr \<Rightarrow> exn + UserCreate" where
  "UserCreate_init U db_session username_in email_in password_in =
     (case validate_username U db_session username_in of
        Inl e \<Rightarrow> Inl e
      | Inr u \<Rightarrow>
          (case validate_email U db_session email_in of
             Inl e \<Rightarrow> Inl e
           | Inr m \<Rightarrow>
               (case validate_password U password_in of
                  Inl e \<Rightarrow> Inl e
                | Inr p \<Rightarrow> Inr \<lparr> username = u, email = m, password = p \<rparr>)))"

section \<open>The rules as the specification words them\<close>

text \<open>
  The specification names a field and a reason for every rejection. The table
  \<open>rejection\<close> gives, for each sub-rule of a field, the exception that the source raises
  at that sub-rule (lines 22, 29, 38, 49, 58, 71, 78, 85, 92 and 99); \<open>decode\<close> reads
  the field and the reason back from an exception.
\<close>

datatype field = Username | Email | Password

datatype reason =
    Length | Charset | Duplicate | Format
  | Too_short | Needs_uppercase | Needs_lowercase | Needs_digit | Needs_special

fun rejection :: "field \<Rightarrow> reason \<Rightarrow> exn option" where
  "rejection Username Length =
     Some (HTTPException 400 ''Username must be between 3 and 30 characters'')"
| "rejection Username Charset =
     Some (HTTPException 400 ''Username can only contain letters, numbers, and underscores'')"
| "rejection Username Duplicate =
     Some (HTTPException 400 ''Username or email already registered'')"
| "rejection Email Format = Some (HTTPException 400 ''Invalid email address'')"
| "rejection Email Duplicate = Some (HTTPException 400 ''Email already registered'')"
| "rejection Password Too_short =
     Some (HTTPException 400 ''Password must be at least 8 characters long'')"
| "rejection Password Needs_uppercase =
     Some (HTTPException 400 ''Password must contain at least one uppercase letter'')"
| "rejection Password Needs_lowercase =
     Some (HTTPException 400 ''Password must contain at least one lowercase letter'')"
| "rejection Password Needs_digit =
     Some (HTTPException 400 ''Password must contain at least one digit'')"
| "rejection Password Needs_special =
     Some (HTTPException 400 ''Password must contain at least one special character'')"
| "rejection _ _ = None"

definition sub_rules :: "(field \<times> reason) list" where
  "sub_rules =
     [(Username, Length), (Username, Charset), (Username, Duplicate),
      (Email, Format), (Email, Duplicate),
      (Password, Too_short), (Password, Needs_uppercase), (Password, Needs_lowercase),
      (Password, Needs_digit), (Password, Needs_special)]"

definition decode :: "exn \<Rightarrow> (field \<times> reason) option" where
  "decode e = find (\<lambda>(f, r). rejection f r = Some e) sub_rules"

text \<open>
  The character classes in the words of the specification: a username character is an
  ASCII letter, a digit or the underscore; an email is a local part, \<^verbatim>\<open>@\<close>, a domain,
  a dot and a tail, each part non-empty and over its own characters.
\<close>

definition spec_username_char :: "codepoint \<Rightarrow> bool" where
  "spec_username_char c = (ascii_letter c \<or> ascii_digit c \<or> c = py_ord CHR ''_'')"

definition email_local_char :: "codepoint \<Rightarrow> bool" where
  "email_local_char c =
     (ascii_letter c \<or> ascii_digit c \<or> c \<in> py_ord ` {CHR ''_'', CHR ''.'', CHR ''+'', CHR ''-''})"

definition email_domain_char :: "codepoint \<Rightarrow> bool" where
  "email_domain_char c = (ascii_letter c \<or> ascii_digit c \<or> c = py_ord CHR ''-'')"

definition email_tail_char :: "codepoint \<Rightarrow> bool" where
  "email_tail_char c = (ascii_letter c \<or> ascii_digit c \<or> c \<in> py_ord ` {CHR ''-'', CHR ''.''})"

definition spec_email_format :: "str \<Rightarrow> bool" where
  "spec_email_format s =
     (\<exists>l d t. s = l @ [py_ord CHR ''@''] @ d @ [py_ord CHR ''.''] @ t \<and>
        l \<noteq> [] \<and> list_all email_local_char l \<and>
        d \<noteq> [] \<and> list_all email_domain_char d \<and>
        t \<noteq> [] \<and> list_all email_tail_char t)"

text \<open>
  What a password contains: an uppercase letter is one of A to Z, a lowercase letter
  one of a to z, a special character is one of the twenty of the specification. For
  the digit there are two readings. \<open>has_ascii_digit\<close> is the reading of the
  specification, which writes the digits as \<^verbatim>\<open>0-9\<close>. \<open>has_digit\<close> is the wider one: a
  digit is one of 0 to 9 or a code point from 128 on that the Unicode database gives
  as a decimal digit, such as the Arabic-Indic digit U+0661.
\<close>

definition has_uppercase :: "str \<Rightarrow> bool" where
  "has_uppercase s = (\<exists>c\<in>set s. py_ord CHR ''A'' \<le> c \<and> c \<le> py_ord CHR ''Z'')"

definition has_lowercase :: "str \<Rightarrow> bool" where
  "has_lowercase s = (\<exists>c\<in>set s. py_ord CHR ''a'' \<le> c \<and> c \<le> py_ord CHR ''z'')"

definition has_ascii_digit :: "str \<Rightarrow> bool" where
  "has_ascii_digit s = (\<exists>c\<in>set s. py_ord CHR ''0'' \<le> c \<and> c \<le> py_ord CHR ''9'')"

definition has_digit :: "unicode_db \<Rightarrow> str \<Rightarrow> bool" where
  "has_digit U s =
     (\<exists>c\<in>set s. (py_ord CHR ''0'' \<le> c \<and> c \<le> py_ord CHR ''9'') \<or> (128 \<le> c \<and> isdecimal U c))"

definition has_special :: "str \<Rightarrow> bool" where
  "has_special s = (\<exists>c\<in>set s. c \<in> set (py_str special_characters))"

text \<open>The sub-rule at which a password fails first, if any.\<close>

definition password_failure :: "unicode_db \<Rightarrow> SecretStr \<Rightarrow> reason option" where
  "password_failure U p =
     (let s = get_secret_value p in
      if length s < 8 then Some Too_short
      else if \<not> has_uppercase s then Some Needs_uppercase
      else if \<not> has_lowercase s then Some Needs_lowercase
      else if \<not> has_digit U s then Some Needs_digit
      else if \<not> has_special s then Some Needs_special
      else None)"

text \<open>
  The password rule as the specification states it, with letters and digits read as
  ASCII throughout: five checks in order, the first failure is the outcome.
\<close>

definition spec_password_check :: "SecretStr \<Rightarrow> exn + SecretStr" where
  "spec_password_check p =
     (let s = get_secret_value p in
      if length s < 8 then
        Inl (HTTPException 400 ''Password must be at least 8 characters long'')
      else if \<not> has_uppercase s then
        Inl (HTTPException 400 ''Password must contain at least one uppercase letter'')
      else if \<not> has_lowercase s then
        Inl (HTTPException 400 ''Password must contain at least one lowercase letter'')
      else if \<not> has_ascii_digit s then
        Inl (HTTPException 400 ''Password must contain at least one digit'')
      else if \<not> has_special s then
        Inl (HTTPException 400 ''Password must contain at least one special character'')
      else Inr p)"

text \<open>
  A field rule is an ordered sequence of checks on one value and the first failure
  wins: \<open>first_failure\<close> runs a list of checks in order. Each check below is one
  sub-rule in the words of the specification, with the rejection of the table. The two
  duplicate rules ask the oracle, which is the session: is there a stored user with
  this username, is there a stored user with this email.
\<close>

type_synonym 'a rule = "'a \<Rightarrow> exn option"

fun first_failure :: "'a rule list \<Rightarrow> 'a \<Rightarrow> exn + 'a" where
  "first_failure [] x = Inr x"
| "first_failure (r # rs) x = (case r x of Some e \<Rightarrow> Inl e | None \<Rightarrow> first_failure rs x)"

definition username_length_rule :: "str rule" where
  "username_length_rule u =
     (if 3 \<le> length u \<and> length u \<le> 30 then None else rejection Username Length)"

definition username_charset_rule :: "unicode_db \<Rightarrow> str rule" where
  "username_charset_rule U u =
     (if re_match U username_pattern u then None else rejection Username Charset)"

definition exists_by_username :: "Session \<Rightarrow> str \<Rightarrow> bool" where
  "exists_by_username session u = list_ex (\<lambda>r. User_username r = u) session"

definition exists_by_email :: "Session \<Rightarrow> str \<Rightarrow> bool" where
  "exists_by_email session m = list_ex (\<lambda>r. User_email r = m) session"

definition username_duplicate_rule :: "Session option \<Rightarrow> str rule" where
  "username_duplicate_rule oracle u =
     (case oracle of
        None \<Rightarrow> None
      | Some session \<Rightarrow>
          (if exists_by_username session u then rejection Username Duplicate else None))"

definition email_format_rule :: "unicode_db \<Rightarrow> str rule" where
  "email_format_rule U m =
     (if re_match U email_pattern m then None else rejection Email Format)"

definition email_duplicate_rule :: "Session option \<Rightarrow> str rule" where
  "email_duplicate_rule oracle m =
     (case oracle of
        None \<Rightarrow> None
      | Some session \<Rightarrow>
          (if exists_by_email session m then rejection Email Duplicate else None))"

definition password_length_rule :: "SecretStr rule" where
  "password_length_rule p =
     (if length (get_secret_value p) < 8 then rejection Password Too_short else None)"

definition password_uppercase_rule :: "SecretStr rule" where
  "password_uppercase_rule p =
     (if has_uppercase (get_secret_value p) then None else rejection Password Needs_uppercase)"

definition password_lowercase_rule :: "SecretStr rule" where
  "password_lowercase_rule p =
     (if has_lowercase (get_secret_value p) then None else rejection Password Needs_lowercase)"

definition password_digit_rule :: "unicode_db \<Rightarrow> SecretStr rule" where
  "password_digit_rule U p =
     (if has_digit U (get_secret_value p) then None else rejection Password Needs_digit)"

definition password_special_rule :: "SecretStr rule" where
  "password_special_rule p =
     (if has_special (get_secret_value p) then None else rejection Password Needs_special)"

definition username_rules :: "unicode_db \<Rightarrow> Session option \<Rightarrow> str rule list" where
  "username_rules U oracle =
     [username_length_rule, username_charset_rule U, username_duplicate_rule oracle]"

definition email_rules :: "unicode_db \<Rightarrow> Session option \<Rightarrow> str rule list" where
  "email_rules U oracle = [email_format_rule U, email_duplicate_rule oracle]"

definition password_rules :: "unicode_db \<Rightarrow> SecretStr rule list" where
  "password_rules U =
     [password_length_rule, password_uppercase_rule, password_lowercase_rule,
      password_digit_rule U, password_special_rule]"

text \<open>
  The rules of a whole request: those of the username, then those of the email, then
  those of the password. \<open>syntactic_rules\<close> are the same without the two duplicate
  checks.
\<close>

definition on_field :: "('r \<Rightarrow> 'a) \<Rightarrow> 'a rule list \<Rightarrow> 'r rule list" where
  "on_field sel rs = map (\<lambda>r. r \<circ> sel) rs"

definition registration_rules :: "unicode_db \<Rightarrow> Session option \<Rightarrow> UserCreate rule list" where
  "registration_rules U oracle =
     on_field username (username_rules U oracle) @
     on_field email (email_rules U oracle) @
     on_field password (password_rules U)"

definition syntactic_rules :: "unicode_db \<Rightarrow> UserCreate rule list" where
  "syntactic_rules U =
     on_field username [username_length_rule, username_charset_rule U] @
     on_field email [email_format_rule U] @
     on_field password (password_rules U)"

section \<open>Facts about the matcher\<close>

lemmas eval_defs =
  re_match_def re_search_def username_pattern_def email_pattern_def uppercase_pattern_def
  lowercase_pattern_def digit_pattern_def special_pattern_def special_characters_def
  py_str_def py_ord_def in_class_def uni_isalnum_def uni_isdecimal_def ascii_letter_def
  ascii_digit_def HTTP_400_BAD_REQUEST_def

lemma search_from_One: "search_from U [One cl] b s \<longleftrightarrow> (\<exists>c\<in>set s. in_class U cl c)"
  by (induction s arbitrary: b) auto

lemma re_search_One: "re_search U [One cl] s \<longleftrightarrow> (\<exists>c\<in>set s. in_class U cl c)"
  by (simp add: re_search_def search_from_One)

lemma re_search_uppercase: "re_search U uppercase_pattern s \<longleftrightarrow> has_uppercase s"
  by (simp add: uppercase_pattern_def re_search_One has_uppercase_def in_class_def)

lemma re_search_lowercase: "re_search U lowercase_pattern s \<longleftrightarrow> has_lowercase s"
  by (simp add: lowercase_pattern_def re_search_One has_lowercase_def in_class_def)

lemma uni_isdecimal_iff:
  "uni_isdecimal U c \<longleftrightarrow>
     (py_ord CHR ''0'' \<le> c \<and> c \<le> py_ord CHR ''9'') \<or> (128 \<le> c \<and> isdecimal U c)"
  by (auto simp add: uni_isdecimal_def ascii_digit_def py_ord_def)

lemma re_search_digit: "re_search U digit_pattern s \<longleftrightarrow> has_digit U s"
  by (simp add: digit_pattern_def re_search_One has_digit_def in_class_def uni_isdecimal_iff)

lemma in_class_Lits: "in_class U (map (\<lambda>c. Lit (py_ord c)) cs) x \<longleftrightarrow> x \<in> set (py_str cs)"
  by (auto simp add: in_class_def list_ex_iff py_str_def)

lemma re_search_special: "re_search U special_pattern s \<longleftrightarrow> has_special s"
  by (simp add: special_pattern_def re_search_One has_special_def in_class_Lits)

lemma in_class_Esc_w: "in_class U [Esc_w] = (\<lambda>c. uni_isalnum U c \<or> c = 95)"
  by (rule ext) (simp add: in_class_def)

lemma in_class_Lit: "in_class U [Lit a] c \<longleftrightarrow> c = a"
  by (simp add: in_class_def)

lemma match_at_Dollar: "match_at U [Dollar] b s \<longleftrightarrow> s = [] \<or> s = [10]"
  by simp

lemma match_at_One:
  "match_at U (One cl # p) b s \<longleftrightarrow> (\<exists>c r. s = c # r \<and> in_class U cl c \<and> match_at U p False r)"
  by (cases s) auto

text \<open>A class under \<^verbatim>\<open>+\<close> takes a non-empty run of its characters, of any length.\<close>

lemma match_at_Plus:
  "match_at U (Plus cl # p) b s \<longleftrightarrow>
     (\<exists>w r. s = w @ r \<and> w \<noteq> [] \<and> list_all (in_class U cl) w \<and> match_at U p False r)"
proof (induction s arbitrary: b)
  case Nil
  then show ?case by simp
next
  case (Cons c s)
  show ?case
  proof
    assume m: "match_at U (Plus cl # p) b (c # s)"
    then have c: "in_class U cl c" by simp
    from m have "match_at U (Plus cl # p) False s \<or> match_at U p False s" by simp
    then show "\<exists>w r. c # s = w @ r \<and> w \<noteq> [] \<and> list_all (in_class U cl) w \<and> match_at U p False r"
    proof
      assume "match_at U (Plus cl # p) False s"
      then obtain w r where "s = w @ r" "w \<noteq> []" "list_all (in_class U cl) w" "match_at U p False r"
        using Cons.IH by blast
      then show ?thesis using c by (intro exI [of _ "c # w"] exI [of _ r]) simp
    next
      assume "match_at U p False s"
      then show ?thesis using c by (intro exI [of _ "[c]"] exI [of _ s]) simp
    qed
  next
    assume "\<exists>w r. c # s = w @ r \<and> w \<noteq> [] \<and> list_all (in_class U cl) w \<and> match_at U p False r"
    then obtain w r where w: "c # s = w @ r" "w \<noteq> []" "list_all (in_class U cl) w"
      and r: "match_at U p False r"
      by blast
    then obtain v where v: "w = c # v" by (cases w) auto
    with w have c: "in_class U cl c" and vs: "list_all (in_class U cl) v" and s: "s = v @ r"
      by auto
    show "match_at U (Plus cl # p) b (c # s)"
    proof (cases "v = []")
      case True
      then show ?thesis using c s r by simp
    next
      case False
      then have "match_at U (Plus cl # p) False s" using Cons.IH vs s r by blast
      then show ?thesis using c by simp
    qed
  qed
qed

text \<open>
  What the username pattern accepts with \<^verbatim>\<open>re.match\<close>: a non-empty run of word
  characters, or such a run followed by one newline.
\<close>

lemma username_pattern_matches:
  "re_match U username_pattern s \<longleftrightarrow>
     (\<exists>w. w \<noteq> [] \<and> list_all (\<lambda>c. uni_isalnum U c \<or> c = 95) w \<and> (s = w \<or> s = w @ [10]))"
  by (auto simp add: re_match_def username_pattern_def match_at_Plus in_class_Esc_w)

lemma match_at_email_shape:
  "match_at U [Plus L, One [Lit a], Plus D, One [Lit b], Plus T, Dollar] at s \<longleftrightarrow>
     (\<exists>l d t e. s = l @ [a] @ d @ [b] @ t @ e \<and>
        l \<noteq> [] \<and> list_all (in_class U L) l \<and>
        d \<noteq> [] \<and> list_all (in_class U D) d \<and>
        t \<noteq> [] \<and> list_all (in_class U T) t \<and> (e = [] \<or> e = [10]))"
  (is "?lhs \<longleftrightarrow> ?rhs")
proof
  assume ?lhs
  then obtain l r1 where l: "s = l @ r1" "l \<noteq> []" "list_all (in_class U L) l"
    and m1: "match_at U [One [Lit a], Plus D, One [Lit b], Plus T, Dollar] False r1"
    unfolding match_at_Plus [of U L] by blast
  from m1 obtain r2 where r1: "r1 = a # r2"
    and m2: "match_at U [Plus D, One [Lit b], Plus T, Dollar] False r2"
    unfolding match_at_One [of U "[Lit a]"] in_class_Lit by blast
  from m2 obtain d r3 where d: "r2 = d @ r3" "d \<noteq> []" "list_all (in_class U D) d"
    and m3: "match_at U [One [Lit b], Plus T, Dollar] False r3"
    unfolding match_at_Plus [of U D] by blast
  from m3 obtain r4 where r3: "r3 = b # r4"
    and m4: "match_at U [Plus T, Dollar] False r4"
    unfolding match_at_One [of U "[Lit b]"] in_class_Lit by blast
  from m4 obtain t e where t: "r4 = t @ e" "t \<noteq> []" "list_all (in_class U T) t"
    and e: "e = [] \<or> e = [10]"
    unfolding match_at_Plus [of U T] match_at_Dollar by blast
  have "s = l @ [a] @ d @ [b] @ t @ e"
    using l(1) r1 d(1) r3 t(1) by simp
  with l d t e show ?rhs by blast
next
  assume ?rhs
  then obtain l d t e where s: "s = l @ [a] @ d @ [b] @ t @ e"
    and l: "l \<noteq> []" "list_all (in_class U L) l"
    and d: "d \<noteq> []" "list_all (in_class U D) d"
    and t: "t \<noteq> []" "list_all (in_class U T) t"
    and e: "e = [] \<or> e = [10]"
    by blast
  have m4: "match_at U [Plus T, Dollar] False (t @ e)"
    unfolding match_at_Plus [of U T] match_at_Dollar using t e by blast
  have m3: "match_at U [One [Lit b], Plus T, Dollar] False (b # t @ e)"
    unfolding match_at_One [of U "[Lit b]"] in_class_Lit using m4 by blast
  have m2: "match_at U [Plus D, One [Lit b], Plus T, Dollar] False (d @ b # t @ e)"
    unfolding match_at_Plus [of U D] using d m3 by blast
  have m1: "match_at U [One [Lit a], Plus D, One [Lit b], Plus T, Dollar] False (a # d @ b # t @ e)"
    unfolding match_at_One [of U "[Lit a]"] in_class_Lit using m2 by blast
  have "match_at U [Plus L, One [Lit a], Plus D, One [Lit b], Plus T, Dollar] at (l @ a # d @ b # t @ e)"
    unfolding match_at_Plus [of U L] using l m1 by blast
  then show ?lhs using s by simp
qed

lemma email_classes:
  "in_class U [Range (py_ord CHR ''a'') (py_ord CHR ''z''), Range (py_ord CHR ''A'') (py_ord CHR ''Z''),
            Range (py_ord CHR ''0'') (py_ord CHR ''9''), Lit (py_ord CHR ''_''), Lit (py_ord CHR ''.''),
            Lit (py_ord CHR ''+''), Lit (py_ord CHR ''-'')] = email_local_char"
  "in_class U [Range (py_ord CHR ''a'') (py_ord CHR ''z''), Range (py_ord CHR ''A'') (py_ord CHR ''Z''),
            Range (py_ord CHR ''0'') (py_ord CHR ''9''), Lit (py_ord CHR ''-'')] = email_domain_char"
  "in_class U [Range (py_ord CHR ''a'') (py_ord CHR ''z''), Range (py_ord CHR ''A'') (py_ord CHR ''Z''),
            Range (py_ord CHR ''0'') (py_ord CHR ''9''), Lit (py_ord CHR ''-''), Lit (py_ord CHR ''.'')] = email_tail_char"
  by (rule ext, auto simp add: in_class_def email_local_char_def email_domain_char_def email_tail_char_def
      ascii_letter_def ascii_digit_def py_ord_def)+

text \<open>
  What the email pattern accepts with \<^verbatim>\<open>re.match\<close>: a string of the format of the
  specification, or such a string followed by one newline.
\<close>

lemma email_pattern_matches:
  "re_match U email_pattern s \<longleftrightarrow>
     spec_email_format s \<or> (\<exists>s'. s = s' @ [10] \<and> spec_email_format s')"
  (is "?lhs \<longleftrightarrow> ?rhs")
proof -
  have "?lhs \<longleftrightarrow>
     (\<exists>l d t e. s = l @ [py_ord CHR ''@''] @ d @ [py_ord CHR ''.''] @ t @ e \<and>
        l \<noteq> [] \<and> list_all email_local_char l \<and>
        d \<noteq> [] \<and> list_all email_domain_char d \<and>
        t \<noteq> [] \<and> list_all email_tail_char t \<and> (e = [] \<or> e = [10]))"
    (is "_ \<longleftrightarrow> ?mid")
    unfolding re_match_def email_pattern_def match_at.simps(2) match_at_email_shape email_classes
    by simp
  also have "?mid \<longleftrightarrow> ?rhs"
  proof
    assume ?mid
    then obtain l d t e where s: "s = l @ [py_ord CHR ''@''] @ d @ [py_ord CHR ''.''] @ t @ e"
      and f: "l \<noteq> []" "list_all email_local_char l" "d \<noteq> []" "list_all email_domain_char d"
        "t \<noteq> []" "list_all email_tail_char t"
      and e: "e = [] \<or> e = [10]"
      by blast
    have sf: "spec_email_format (l @ [py_ord CHR ''@''] @ d @ [py_ord CHR ''.''] @ t)"
      unfolding spec_email_format_def using f by blast
    from e show ?rhs
    proof
      assume "e = []"
      then show ?thesis using s sf by simp
    next
      assume "e = [10]"
      then have "s = (l @ [py_ord CHR ''@''] @ d @ [py_ord CHR ''.''] @ t) @ [10]" using s by simp
      then show ?thesis using sf by blast
    qed
  next
    assume ?rhs
    then show ?mid
    proof
      assume "spec_email_format s"
      then obtain l d t where "s = l @ [py_ord CHR ''@''] @ d @ [py_ord CHR ''.''] @ t @ []"
        "l \<noteq> []" "list_all email_local_char l" "d \<noteq> []" "list_all email_domain_char d"
        "t \<noteq> []" "list_all email_tail_char t"
        unfolding spec_email_format_def by auto
      then show ?thesis by blast
    next
      assume "\<exists>s'. s = s' @ [10] \<and> spec_email_format s'"
      then obtain l d t where "s = l @ [py_ord CHR ''@''] @ d @ [py_ord CHR ''.''] @ t @ [10]"
        "l \<noteq> []" "list_all email_local_char l" "d \<noteq> []" "list_all email_domain_char d"
        "t \<noteq> []" "list_all email_tail_char t"
        unfolding spec_email_format_def by auto
      then show ?thesis by blast
    qed
  qed
  finally show ?thesis .
qed

lemma spec_email_format_last: "spec_email_format s \<Longrightarrow> email_tail_char (last s)"
proof -
  assume "spec_email_format s"
  then obtain l d t where s: "s = l @ [py_ord CHR ''@''] @ d @ [py_ord CHR ''.''] @ t"
    and t: "t \<noteq> []" "list_all email_tail_char t"
    unfolding spec_email_format_def by blast
  from s t(1) have "last s = last t" by simp
  moreover from t have "email_tail_char (last t)" by (simp add: list_all_iff)
  ultimately show ?thesis by simp
qed

section \<open>Facts about the schema\<close>

lemma cls_query_missing: "cls_getattr ''query'' = Inl (AttributeError ''query'')"
  by (simp add: cls_getattr_def UserCreate_attributes_def)

text \<open>
  A word character need not be ASCII: with U+00E9 alphanumeric, the username \<^verbatim>\<open>jos\<close>
  followed by U+00E9 passes the charset check.
\<close>

lemma username_non_ascii_letter_accepted:
  "validate_username unicode_excerpt None (py_str ''jos'' @ [233]) = Inr (py_str ''jos'' @ [233])"
  by (simp add: validate_username_def unicode_excerpt_def eval_defs)

lemmas rule_defs =
  registration_rules_def syntactic_rules_def username_rules_def email_rules_def
  password_rules_def on_field_def username_length_rule_def username_charset_rule_def
  username_duplicate_rule_def email_format_rule_def email_duplicate_rule_def
  exists_by_username_def exists_by_email_def
  password_length_rule_def password_uppercase_rule_def password_lowercase_rule_def
  password_digit_rule_def password_special_rule_def has_uppercase_def has_lowercase_def
  has_digit_def has_special_def

lemma first_failure_Inr: "first_failure rs x = Inr v \<Longrightarrow> v = x"
  by (induction rs) (auto split: option.splits)

lemma first_failure_on_field:
  "first_failure (on_field sel rs @ rest) x =
     (case first_failure rs (sel x) of Inl e \<Rightarrow> Inl e | Inr v \<Rightarrow> first_failure rest x)"
  by (induction rs) (auto simp add: on_field_def split: option.splits)

lemma username_duplicate_rule_None: "username_duplicate_rule None u = None"
  by (simp add: username_duplicate_rule_def)

lemma email_duplicate_rule_None: "email_duplicate_rule None m = None"
  by (simp add: email_duplicate_rule_def)

text \<open>Without a session the validators are the rules of the specification.\<close>

lemma validate_username_no_session:
  "validate_username U None u = first_failure (username_rules U None) u"
  by (simp add: validate_username_def username_rules_def username_length_rule_def
      username_charset_rule_def username_duplicate_rule_None HTTP_400_BAD_REQUEST_def)

lemma validate_email_no_session:
  "validate_email U None m = first_failure (email_rules U None) m"
  by (simp add: validate_email_def email_rules_def email_format_rule_def
      email_duplicate_rule_None)

text \<open>
  With a session the syntactic rules come first as well, but a value that passes them
  ends in the failed lookup instead of the question to the oracle.
\<close>

lemma validate_username_with_session:
  "validate_username U (Some session) u =
     (case first_failure [username_length_rule, username_charset_rule U] u of
        Inl e \<Rightarrow> Inl e
      | Inr v \<Rightarrow> Inl (AttributeError ''query''))"
  by (simp add: validate_username_def username_length_rule_def username_charset_rule_def
      HTTP_400_BAD_REQUEST_def cls_query_missing)

lemma validate_email_with_session:
  "validate_email U (Some session) m =
     (case first_failure [email_format_rule U] m of
        Inl e \<Rightarrow> Inl e
      | Inr v \<Rightarrow> Inl (AttributeError ''query''))"
  by (simp add: validate_email_def email_format_rule_def cls_query_missing)

lemma validate_password_first_failure:
  "validate_password U pw = first_failure (password_rules U) pw"
  by (simp add: validate_password_def password_rules_def password_length_rule_def
      password_uppercase_rule_def password_lowercase_rule_def password_digit_rule_def
      password_special_rule_def re_search_uppercase re_search_lowercase re_search_digit
      re_search_special)

lemma UserCreate_init_no_session:
  "UserCreate_init U None u m pw =
     first_failure (registration_rules U None) \<lparr>username = u, email = m, password = pw\<rparr>"
proof -
  have "first_failure (on_field password (password_rules U)) \<lparr>username = u, email = m, password = pw\<rparr> =
      (case first_failure (password_rules U) pw of Inl e \<Rightarrow> Inl e
       | Inr v \<Rightarrow> Inr \<lparr>username = u, email = m, password = pw\<rparr>)"
    using first_failure_on_field [of password "password_rules U" "[]"
        "\<lparr>username = u, email = m, password = pw\<rparr>"]
    by (simp split: sum.splits)
  then show ?thesis
    by (auto simp add: UserCreate_init_def registration_rules_def first_failure_on_field
        validate_username_no_session validate_email_no_session
        validate_password_first_failure
        split: sum.splits dest: first_failure_Inr)
qed

lemma rejection_decode: "rejection f r = Some e \<Longrightarrow> decode e = Some (f, r)"
  by (cases f; cases r) (auto simp add: decode_def sub_rules_def)

lemma rejection_inj:
  "rejection f r = Some e \<Longrightarrow> rejection f' r' = Some e \<Longrightarrow> f = f' \<and> r = r'"
  using rejection_decode [of f r e] rejection_decode [of f' r' e] by simp

lemma validate_password_failure:
  "validate_password U p =
     (case password_failure U p of
        None \<Rightarrow> Inr p
      | Some r \<Rightarrow> (case rejection Password r of Some e \<Rightarrow> Inl e | None \<Rightarrow> Inr p))"
  by (simp add: validate_password_def password_failure_def Let_def re_search_uppercase
      re_search_lowercase re_search_digit re_search_special)

text \<open>
  The letter ranges are ASCII: a password whose only uppercase letter is U+00C9 fails
  the uppercase check.
\<close>

lemma password_non_ascii_uppercase_rejected:
  "validate_password U (SecretStr ([201] @ py_str ''abcdefg1!'')) =
     Inl (HTTPException 400 ''Password must contain at least one uppercase letter'')"
  by (simp add: validate_password_def eval_defs)

section \<open>The claims\<close>

text \<open>
  C8. For every candidate username the length check comes first: the validator raises
  the length rejection (line 22) exactly when the username has fewer than 3 or more
  than 30 characters, whatever the characters are and whether or not a session is
  attached.
\<close>

theorem username_length_first:
  "validate_username U db_session u =
      Inl (HTTPException 400 ''Username must be between 3 and 30 characters'')
    \<longleftrightarrow> length u < 3 \<or> 30 < length u"
  by (auto simp add: validate_username_def HTTP_400_BAD_REQUEST_def cls_query_missing
      split: option.splits)

theorem username_length_first_witness:
  "validate_username unicode_excerpt None (py_str ''ab'') =
      Inl (HTTPException 400 ''Username must be between 3 and 30 characters'')
   \<and> validate_username unicode_excerpt None (py_str ''this_is_a_very_long_username_over_30_chars'') =
      Inl (HTTPException 400 ''Username must be between 3 and 30 characters'')"
  using username_length_first [of unicode_excerpt None "py_str ''ab''"]
    username_length_first [of unicode_excerpt None
      "py_str ''this_is_a_very_long_username_over_30_chars''"]
  by (simp add: py_str_def)

text \<open>
  C5, as amended. For every candidate password the validator checks five rules in
  order and raises at the first that fails: too short when the password has fewer than
  8 characters; else no uppercase letter A to Z; else no lowercase letter a to z; else
  no digit, where a digit is one of 0 to 9 or a decimal digit of Unicode beyond ASCII;
  else no character of the set of line 98; else the password is returned.
\<close>

theorem password_rules_in_order:
  "validate_password U (SecretStr pw) =
     (if length pw < 8 then
        Inl (HTTPException 400 ''Password must be at least 8 characters long'')
      else if \<not> has_uppercase pw then
        Inl (HTTPException 400 ''Password must contain at least one uppercase letter'')
      else if \<not> has_lowercase pw then
        Inl (HTTPException 400 ''Password must contain at least one lowercase letter'')
      else if \<not> has_digit U pw then
        Inl (HTTPException 400 ''Password must contain at least one digit'')
      else if \<not> has_special pw then
        Inl (HTTPException 400 ''Password must contain at least one special character'')
      else Inr (SecretStr pw))"
  by (simp add: validate_password_def re_search_uppercase re_search_lowercase re_search_digit
      re_search_special)

theorem password_rules_in_order_witness:
  "validate_password unicode_excerpt (SecretStr (py_str ''short1!'')) =
      Inl (HTTPException 400 ''Password must be at least 8 characters long'')
   \<and> validate_password unicode_excerpt (SecretStr (py_str ''alllowercase1!'')) =
      Inl (HTTPException 400 ''Password must contain at least one uppercase letter'')
   \<and> validate_password unicode_excerpt (SecretStr (py_str ''SecurePass1!'')) =
      Inr (SecretStr (py_str ''SecurePass1!''))"
  by (simp add: password_rules_in_order has_uppercase_def has_lowercase_def has_digit_def
      has_special_def eval_defs)

text \<open>
  C5, as stated, fails when the digits are 0 to 9: the password \<^verbatim>\<open>Abcdefg!\<close> followed
  by the Arabic-Indic digit U+0661 holds none of them, so the rule of the specification
  rejects it for the missing digit, and the validator returns it, since \<^verbatim>\<open>\d\<close> on line
  91 matches every decimal digit of Unicode.
\<close>

theorem password_non_ascii_digit_accepted:
  "validate_password unicode_excerpt (SecretStr (py_str ''Abcdefg!'' @ [1633])) =
      Inr (SecretStr (py_str ''Abcdefg!'' @ [1633]))
   \<and> spec_password_check (SecretStr (py_str ''Abcdefg!'' @ [1633])) =
      Inl (HTTPException 400 ''Password must contain at least one digit'')"
  by (simp add: validate_password_def spec_password_check_def has_uppercase_def
      has_lowercase_def has_ascii_digit_def has_special_def unicode_excerpt_def eval_defs)

text \<open>
  C2. When a session is attached, a username that passes the length and charset checks
  and an email that passes the format check both end in the AttributeError of the
  lookup \<^verbatim>\<open>cls.query\<close> (lines 36 and 56), whatever the session holds; with a session
  attached neither validator returns a value or raises its duplicate rejection.
\<close>

theorem session_attached_raises_AttributeError:
  "(3 \<le> length u \<and> length u \<le> 30 \<and> re_match U username_pattern u \<longrightarrow>
      validate_username U (Some session) u = Inl (AttributeError ''query''))
   \<and> (re_match U email_pattern m \<longrightarrow>
      validate_email U (Some session) m = Inl (AttributeError ''query''))
   \<and> validate_username U (Some session) u \<noteq> Inr v
   \<and> validate_username U (Some session) u \<noteq>
        Inl (HTTPException 400 ''Username or email already registered'')
   \<and> validate_email U (Some session) m \<noteq> Inr v
   \<and> validate_email U (Some session) m \<noteq> Inl (HTTPException 400 ''Email already registered'')"
  by (simp add: validate_username_def validate_email_def HTTP_400_BAD_REQUEST_def
      cls_query_missing)

theorem session_attached_raises_AttributeError_witness:
  "validate_username unicode_excerpt
      (Some [User 1 (py_str ''john_doe'') (py_str ''john_doe@example.com'')]) (py_str ''john_doe'') =
      Inl (AttributeError ''query'')
   \<and> validate_email unicode_excerpt
      (Some [User 1 (py_str ''john_doe'') (py_str ''john_doe@example.com'')])
      (py_str ''john_doe@example.com'') = Inl (AttributeError ''query'')"
  using session_attached_raises_AttributeError [of "py_str ''john_doe''" unicode_excerpt
      "[User 1 (py_str ''john_doe'') (py_str ''john_doe@example.com'')]"
      "py_str ''john_doe@example.com''"]
  by (simp add: eval_defs)

text \<open>
  C1. The username \<^verbatim>\<open>john_doe\<close> with a session that holds a user of that name: the
  validator does not raise the duplicate rejection of line 38, it raises the
  AttributeError of the lookup on line 36.
\<close>

theorem duplicate_username_not_rejected:
  "validate_username U (Some [User 1 (py_str ''john_doe'') (py_str ''john_doe@example.com'')])
      (py_str ''john_doe'') = Inl (AttributeError ''query'')
   \<and> rejection Username Duplicate \<noteq> Some (AttributeError ''query'')"
  by (simp add: validate_username_def cls_query_missing eval_defs)

text \<open>
  C3. The username \<^verbatim>\<open>john\<close> followed by a newline has five characters, one of which is
  no ASCII letter, digit or underscore; the validator returns it all the same,
  because \<^verbatim>\<open>$\<close> in the pattern of line 28 also matches before a final newline.
\<close>

theorem username_trailing_newline_accepted:
  "validate_username U None (py_str ''john'' @ [10]) = Inr (py_str ''john'' @ [10])
   \<and> length (py_str ''john'' @ [10]) = 5
   \<and> \<not> list_all spec_username_char (py_str ''john'' @ [10])"
  by (simp add: validate_username_def spec_username_char_def eval_defs)

text \<open>
  C7. The email \<^verbatim>\<open>john@example.com\<close> followed by a newline is not of the format
  local part, \<^verbatim>\<open>@\<close>, domain, dot, tail; the validator returns it all the same, because
  \<^verbatim>\<open>$\<close> in the pattern of line 47 also matches before a final newline.
\<close>

theorem email_trailing_newline_accepted:
  "validate_email U None (py_str ''john@example.com'' @ [10]) =
      Inr (py_str ''john@example.com'' @ [10])
   \<and> \<not> spec_email_format (py_str ''john@example.com'' @ [10])"
proof
  show "validate_email U None (py_str ''john@example.com'' @ [10]) =
      Inr (py_str ''john@example.com'' @ [10])"
    by (simp add: validate_email_def eval_defs)
  have "\<not> email_tail_char (last (py_str ''john@example.com'' @ [10]))"
    by (simp add: email_tail_char_def eval_defs)
  then show "\<not> spec_email_format (py_str ''john@example.com'' @ [10])"
    using spec_email_format_last by blast
qed

text \<open>
  C4. With a session attached, a username and an email that pass their syntactic checks
  end in one and the same exception, the AttributeError of the lookup \<^verbatim>\<open>cls.query\<close>
  (lines 36 and 56). It is the entry of no sub-rule, so no field and no reason are read
  back from it, while the two duplicate rejections that lines 38 and 58 were to raise
  differ from each other.
\<close>

theorem duplicate_errors_indistinguishable:
  "validate_username U (Some [User 1 (py_str ''john_doe'') (py_str ''john_doe@example.com'')])
      (py_str ''john_doe'') = Inl (AttributeError ''query'')
   \<and> validate_email U (Some [User 1 (py_str ''john_doe'') (py_str ''john_doe@example.com'')])
      (py_str ''john_doe@example.com'') = Inl (AttributeError ''query'')
   \<and> decode (AttributeError ''query'') = None
   \<and> rejection Username Duplicate \<noteq> rejection Email Duplicate"
  by (simp add: validate_username_def validate_email_def cls_query_missing decode_def
      sub_rules_def eval_defs)

text \<open>
  C6. The request (\<^verbatim>\<open>alice\<close>, \<^verbatim>\<open>not-an-email\<close>, \<^verbatim>\<open>short1!\<close>) with a session that holds no
  user: by the rules in their listed order the username passes its three sub-rules
  and the first rejection is the format rejection of the email. Building the model
  does not return it: the username validator raises the AttributeError of the lookup
  \<^verbatim>\<open>cls.query\<close> (line 36) at its duplicate step and the email is never looked at.
\<close>

theorem first_rejection_not_returned_with_session:
  "UserCreate_init U (Some []) (py_str ''alice'') (py_str ''not-an-email'')
      (SecretStr (py_str ''short1!'')) = Inl (AttributeError ''query'')
   \<and> first_failure (registration_rules U (Some []))
        \<lparr>username = py_str ''alice'', email = py_str ''not-an-email'',
         password = SecretStr (py_str ''short1!'')\<rparr> =
      Inl (HTTPException 400 ''Invalid email address'')"
  by (simp add: UserCreate_init_def validate_username_def cls_query_missing rule_defs
      eval_defs)

text \<open>
  C9. With no session attached the two duplicate checks do nothing: each validator and
  the model as a whole give the outcome of the syntactic rules alone.
\<close>

theorem no_session_syntactic_rules_only:
  "validate_username U None u = first_failure [username_length_rule, username_charset_rule U] u
   \<and> validate_email U None m = first_failure [email_format_rule U] m
   \<and> UserCreate_init U None u m pw =
       first_failure (syntactic_rules U) \<lparr>username = u, email = m, password = pw\<rparr>"
  by (simp add: UserCreate_init_no_session validate_username_no_session
      validate_email_no_session registration_rules_def syntactic_rules_def
      first_failure_on_field username_rules_def email_rules_def
      username_duplicate_rule_None email_duplicate_rule_None split: option.splits sum.splits)

theorem no_session_syntactic_rules_only_witness:
  "validate_username unicode_excerpt None (py_str ''john_doe'') = Inr (py_str ''john_doe'')
   \<and> validate_email unicode_excerpt None (py_str ''john_doe@example.com'') =
       Inr (py_str ''john_doe@example.com'')
   \<and> UserCreate_init unicode_excerpt None (py_str ''john_doe'') (py_str ''john_doe@example.com'')
       (SecretStr (py_str ''SecurePass1!'')) =
      Inr \<lparr>username = py_str ''john_doe'', email = py_str ''john_doe@example.com'',
           password = SecretStr (py_str ''SecurePass1!'')\<rparr>"
  using no_session_syntactic_rules_only [of unicode_excerpt "py_str ''john_doe''"
      "py_str ''john_doe@example.com''" "SecretStr (py_str ''SecurePass1!'')"]
  by (simp add: rule_defs eval_defs)

text \<open>
  C10. The exception of a password sub-rule is the one of the table \<open>rejection\<close>, which
  does not take the password. So two passwords that fail at the same sub-rule raise
  the very same exception, also inside two requests that differ in the password only;
  and a request rejected at its username or email has the same outcome for every
  password.
\<close>

theorem password_error_independent_of_content:
  "(validate_password U p1 = Inl e1 \<and> validate_password U p2 = Inl e2 \<and>
      password_failure U p1 = password_failure U p2 \<longrightarrow> e1 = e2)
   \<and> (UserCreate_init U db_session u m p1 = Inl e1 \<and> UserCreate_init U db_session u m p2 = Inl e2 \<and>
      password_failure U p1 = password_failure U p2 \<longrightarrow> e1 = e2)
   \<and> (validate_username U db_session u = Inl e \<or> validate_email U db_session m = Inl e \<longrightarrow>
        UserCreate_init U db_session u m p1 = UserCreate_init U db_session u m p2)
   \<and> (validate_password U p1 = Inl e1 \<longrightarrow>
        (\<exists>r. password_failure U p1 = Some r \<and> rejection Password r = Some e1))"
proof (intro conjI impI)
  assume a: "validate_password U p1 = Inl e1 \<and> validate_password U p2 = Inl e2 \<and>
      password_failure U p1 = password_failure U p2"
  then show "e1 = e2"
    unfolding validate_password_failure by (auto split: option.splits)
next
  assume a: "UserCreate_init U db_session u m p1 = Inl e1 \<and>
      UserCreate_init U db_session u m p2 = Inl e2 \<and>
      password_failure U p1 = password_failure U p2"
  then show "e1 = e2"
    unfolding UserCreate_init_def validate_password_failure
    by (auto split: sum.splits option.splits)
next
  assume "validate_username U db_session u = Inl e \<or> validate_email U db_session m = Inl e"
  then show "UserCreate_init U db_session u m p1 = UserCreate_init U db_session u m p2"
    unfolding UserCreate_init_def by (auto split: sum.splits)
next
  assume "validate_password U p1 = Inl e1"
  then show "\<exists>r. password_failure U p1 = Some r \<and> rejection Password r = Some e1"
    unfolding validate_password_failure by (auto split: option.splits)
qed

theorem password_error_independent_of_content_witness:
  "password_failure unicode_excerpt (SecretStr (py_str ''short1!'')) =
      password_failure unicode_excerpt (SecretStr (py_str ''Ab1!''))
   \<and> validate_password unicode_excerpt (SecretStr (py_str ''short1!'')) =
      Inl (HTTPException 400 ''Password must be at least 8 characters long'')
   \<and> validate_password unicode_excerpt (SecretStr (py_str ''Ab1!'')) =
      Inl (HTTPException 400 ''Password must be at least 8 characters long'')"
proof -
  have f: "password_failure unicode_excerpt (SecretStr (py_str ''short1!'')) =
      password_failure unicode_excerpt (SecretStr (py_str ''Ab1!''))"
    by (simp add: password_failure_def py_str_def)
  have v1: "validate_password unicode_excerpt (SecretStr (py_str ''short1!'')) =
      Inl (HTTPException 400 ''Password must be at least 8 characters long'')"
    by (simp add: validate_password_def py_str_def)
  obtain e2 where v2: "validate_password unicode_excerpt (SecretStr (py_str ''Ab1!'')) = Inl e2"
    by (simp add: validate_password_def py_str_def)
  from password_error_independent_of_content [of unicode_excerpt "SecretStr (py_str ''short1!'')"
      "HTTPException 400 ''Password must be at least 8 characters long''"
      "SecretStr (py_str ''Ab1!'')" e2] f v1 v2
  have "e2 = HTTPException 400 ''Password must be at least 8 characters long''"
    by simp
  with f v1 v2 show ?thesis by simp
qed

end
